theory Spec2Isabelle
  imports Main
begin

section \<open>Strings of the host language\<close>

text \<open>
  The service is TypeScript. Its strings are modelled as \<^typ>\<open>string\<close>; the string
  methods the service calls are written out below. \<open>trim\<close> strips the ASCII white space
  and line terminators (tab, LF, VT, FF, CR, space); the non-ASCII white space of
  ECMAScript is outside a byte-string model.
\<close>

definition isWhiteSpace :: "char \<Rightarrow> bool" where
  "isWhiteSpace c =
     (c = CHR 0x09 \<or> c = CHR 0x0A \<or> c = CHR 0x0B \<or> c = CHR 0x0C \<or> c = CHR 0x0D \<or> c = CHR 0x20)"

definition trim :: "string \<Rightarrow> string" where
  "trim s = rev (dropWhile isWhiteSpace (rev (dropWhile isWhiteSpace s)))"

fun startsWith :: "string \<Rightarrow> string \<Rightarrow> bool" where
  "startsWith s [] = True"
| "startsWith [] (p # ps) = False"
| "startsWith (c # cs) (p # ps) = (c = p \<and> startsWith cs ps)"

fun includes_str :: "string \<Rightarrow> string \<Rightarrow> bool" where
  "includes_str [] sub = (sub = [])"
| "includes_str (c # cs) sub = (startsWith (c # cs) sub \<or> includes_str cs sub)"

text \<open>\<open>s.split(c)\<close> for a one-character separator: never the empty list.\<close>

fun split_chr :: "char \<Rightarrow> string \<Rightarrow> string list" where
  "split_chr sep [] = [[]]"
| "split_chr sep (c # cs) =
     (if c = sep then [] # split_chr sep cs
      else (case split_chr sep cs of [] \<Rightarrow> [[c]] | seg # segs \<Rightarrow> (c # seg) # segs))"

text \<open>\<open>s.replace(pat, rep)\<close> with a string pattern: the first occurrence only. The
  replacement strings of the service hold no \<open>$\<close> pattern of their own; a token holding
  one is outside the model.\<close>

fun replace_first :: "string \<Rightarrow> string \<Rightarrow> string \<Rightarrow> string" where
  "replace_first [] pat rep = (if pat = [] then rep else [])"
| "replace_first (c # cs) pat rep =
     (if startsWith (c # cs) pat then rep @ drop (length pat) (c # cs)
      else c # replace_first cs pat rep)"

text \<open>The truthiness of an optional string: \<open>undefined\<close> and \<open>''\<close> are falsy.\<close>

definition truthy :: "string option \<Rightarrow> bool" where
  "truthy b = (case b of None \<Rightarrow> False | Some s \<Rightarrow> s \<noteq> [])"

text \<open>An optional string inside a template literal.\<close>

definition str :: "string option \<Rightarrow> string" where
  "str b = (case b of None \<Rightarrow> ''undefined'' | Some s \<Rightarrow> s)"

text \<open>A number inside a template literal: its decimal digits.\<close>

fun show_nat :: "nat \<Rightarrow> string" where
  "show_nat n =
     (if n < 10 then [''0123456789'' ! n]
      else show_nat (n div 10) @ [''0123456789'' ! (n mod 10)])"

section \<open>Data model\<close>

datatype clone_status = Cloning | Ready

record CreateRepoInput =
  repoUrl :: string
  localPath :: string
  branch :: "string option"
  defaultBranch :: string
  cloneStatus :: clone_status
  clonedAt :: nat
  isWorktree :: bool

text \<open>\<open>isWorktree\<close> is optional in the source and only ever tested for truthiness:
  an absent flag is \<open>False\<close> here.\<close>

record Repo = CreateRepoInput +
  repo_id :: nat
  lastPulled :: "nat option"
  openCodeConfigName :: "string option"

datatype error = Error (message: string)

section \<open>The record store\<close>

record database =
  rows :: "Repo list"
  next_id :: nat

text \<open>Modelled from the spec: the queries of \<open>db/queries\<close> are not part of the sources.
  The store is a table of rows; \<open>insert\<close> assigns the identifier, the lookups are by
  identifier and by (repository URL, branch) with the absent branch as its own bucket,
  and \<open>updateStatus\<close> and \<open>delete\<close> act on the row with the given identifier.\<close>

definition getRepoByUrlAndBranch :: "database \<Rightarrow> string \<Rightarrow> string option \<Rightarrow> Repo option" where
  "getRepoByUrlAndBranch d url b = find (\<lambda>r. repoUrl r = url \<and> branch r = b) (rows d)"

definition getRepoById :: "database \<Rightarrow> nat \<Rightarrow> Repo option" where
  "getRepoById d i = find (\<lambda>r. repo_id r = i) (rows d)"

definition listRepos :: "database \<Rightarrow> Repo list" where
  "listRepos d = rows d"



definition update_status :: "database \<Rightarrow> nat \<Rightarrow> clone_status \<Rightarrow> database" where
  "update_status d i st =
     d \<lparr> rows := map (\<lambda>r. if repo_id r = i then r \<lparr> cloneStatus := st \<rparr> else r) (rows d) \<rparr>"


section \<open>The world the service acts on\<close>

text \<open>
  Every call the service makes to a collaborator is logged as an event, with its result:
  a command given to the executor, the creation of the workspaces root, and each write
  to the record store.
\<close>

datatype event =
    Exec "string list" "string option" "error + string"
  | EnsureDir string "error + unit"
  | DbCreate Repo
  | DbUpdateStatus nat clone_status
  | DbDelete nat

record 'x world =
  db :: database
  ext :: 'x
  trace :: "event list"

text \<open>
  The collaborators that are not part of the sources are parameters: the command executor
  (\<open>utils/process\<close>), the directory helper (\<open>file-operations\<close>), the settings service,
  the configured workspaces root, \<open>path.resolve\<close> and the clock. \<^typ>\<open>'x\<close> is whatever
  they act on: the file system, the git repositories, the remote.
\<close>

record 'x env =
  run_process :: "string list \<Rightarrow> string option \<Rightarrow> 'x \<Rightarrow> (error + string) \<times> 'x"
  ensure_dir :: "string \<Rightarrow> 'x \<Rightarrow> (error + unit) \<times> 'x"
  settings_gitToken :: "'x \<Rightarrow> error + string option"
  getReposPath :: string
  path_resolve :: "string list \<Rightarrow> string"
  date_now :: "'x \<Rightarrow> nat"

type_synonym ('a, 'x) action = "'x world \<Rightarrow> (error + 'a) \<times> 'x world"

definition returnE :: "'a \<Rightarrow> ('a, 'x) action" where
  "returnE v = (\<lambda>w. (Inr v, w))"

definition throwE :: "error \<Rightarrow> ('a, 'x) action" where
  "throwE e = (\<lambda>w. (Inl e, w))"

definition bindE :: "('a, 'x) action \<Rightarrow> ('a \<Rightarrow> ('b, 'x) action) \<Rightarrow> ('b, 'x) action" where
  "bindE m f = (\<lambda>w. case m w of (Inl e, w') \<Rightarrow> (Inl e, w') | (Inr v, w') \<Rightarrow> f v w')"

definition catchE :: "('a, 'x) action \<Rightarrow> (error \<Rightarrow> ('a, 'x) action) \<Rightarrow> ('a, 'x) action" where
  "catchE m h = (\<lambda>w. case m w of (Inl e, w') \<Rightarrow> h e w' | (Inr v, w') \<Rightarrow> (Inr v, w'))"

definition executeCommand :: "'x env \<Rightarrow> string list \<Rightarrow> string option \<Rightarrow> (string, 'x) action" where
  "executeCommand env argv cwd =
     (\<lambda>w. case run_process env argv cwd (ext w) of
            (res, x') \<Rightarrow> (res, w \<lparr> ext := x', trace := trace w @ [Exec argv cwd res] \<rparr>))"

definition ensureDirectoryExists :: "'x env \<Rightarrow> string \<Rightarrow> (unit, 'x) action" where
  "ensureDirectoryExists env p =
     (\<lambda>w. case ensure_dir env p (ext w) of
            (res, x') \<Rightarrow> (res, w \<lparr> ext := x', trace := trace w @ [EnsureDir p res] \<rparr>))"

definition getSettings :: "'x env \<Rightarrow> (string option, 'x) action" where
  "getSettings env = (\<lambda>w. (settings_gitToken env (ext w), w))"


definition updateRepoStatus :: "nat \<Rightarrow> clone_status \<Rightarrow> (unit, 'x) action" where
  "updateRepoStatus i st =
     (\<lambda>w. (Inr (), w \<lparr> db := update_status (db w) i st, trace := trace w @ [DbUpdateStatus i st] \<rparr>))"


definition getRepoByIdA :: "nat \<Rightarrow> (Repo option, 'x) action" where
  "getRepoByIdA i = (\<lambda>w. (Inr (getRepoById (db w) i), w))"

definition getRepoByUrlAndBranchA :: "string \<Rightarrow> string option \<Rightarrow> (Repo option, 'x) action" where
  "getRepoByUrlAndBranchA url b = (\<lambda>w. (Inr (getRepoByUrlAndBranch (db w) url b), w))"

definition listReposA :: "(Repo list, 'x) action" where
  "listReposA = (\<lambda>w. (Inr (listRepos (db w)), w))"

definition dateNow :: "'x env \<Rightarrow> (nat, 'x) action" where
  "dateNow env = (\<lambda>w. (Inr (date_now env (ext w)), w))"

section \<open>Branch operations\<close>



section \<open>Deletion\<close>

text \<open>
  \<open>url.match(/\/([^\/]+?)(\.git)?$/)\<close>: the pattern has no slash after its first one and
  is anchored at the end, so it can only match at the last slash of the URL, and only
  when something follows that slash. The lazy group takes the shortest non-empty prefix
  of what follows that leaves nothing or exactly \<open>.git\<close>.
\<close>

definition strip_dot_git :: "string \<Rightarrow> string" where
  "strip_dot_git seg =
     (if 4 < length seg \<and> drop (length seg - 4) seg = ''.git''
      then take (length seg - 4) seg else seg)"

definition extractRepoName_at :: "nat \<Rightarrow> string \<Rightarrow> string" where
  "extractRepoName_at now url =
     (if CHR ''/'' \<in> set url \<and> last (split_chr CHR ''/'' url) \<noteq> []
      then strip_dot_git (last (split_chr CHR ''/'' url))
      else ''repo-'' @ show_nat now)"

definition extractRepoName :: "'x env \<Rightarrow> string \<Rightarrow> (string, 'x) action" where
  "extractRepoName env url = (\<lambda>w. (Inr (extractRepoName_at (date_now env (ext w)) url), w))"





section \<open>Orphan reconciliation\<close>



section \<open>Worktree safety subroutines\<close>

definition pruneWorktreeReferences :: "'x env \<Rightarrow> string \<Rightarrow> (unit, 'x) action" where
  "pruneWorktreeReferences env baseRepoPath =
     catchE
       (bindE (executeCommand env [''git'', ''-C'', baseRepoPath, ''worktree'', ''prune''] None)
          (\<lambda>_. returnE ()))
       (\<lambda>error. returnE ())"

text \<open>The loop of \<open>cleanupStaleWorktree\<close> over the lines of the worktree listing: it
  leaves at the first line that holds the worktree path; after the last line it prunes.\<close>

fun cleanupStaleWorktree_lines ::
  "'x env \<Rightarrow> string \<Rightarrow> string \<Rightarrow> string list \<Rightarrow> (bool, 'x) action" where
  "cleanupStaleWorktree_lines env baseRepoPath worktreePath [] =
     bindE (pruneWorktreeReferences env baseRepoPath) (\<lambda>_. returnE True)"
| "cleanupStaleWorktree_lines env baseRepoPath worktreePath (line # rest) =
     (if includes_str line worktreePath then
        bindE (executeCommand env
                 [''git'', ''-C'', baseRepoPath, ''worktree'', ''remove'', ''--force'', worktreePath] None)
          (\<lambda>_. returnE True)
      else cleanupStaleWorktree_lines env baseRepoPath worktreePath rest)"

definition cleanupStaleWorktree :: "'x env \<Rightarrow> string \<Rightarrow> string \<Rightarrow> (bool, 'x) action" where
  "cleanupStaleWorktree env baseRepoPath worktreePath =
     catchE
       (bindE (executeCommand env
                 [''git'', ''-C'', baseRepoPath, ''worktree'', ''list'', ''--porcelain''] None)
          (\<lambda>worktreeList.
             let lines = filter (\<lambda>line. trim line \<noteq> []) (split_chr (CHR 0x0A) worktreeList) in
             cleanupStaleWorktree_lines env baseRepoPath worktreePath lines))
       (\<lambda>error. returnE False)"

definition maxRetries :: nat where
  "maxRetries = 3"

text \<open>The command of one attempt: the checkout of the branch when it exists, locally or on
  the remote, and its creation in the worktree otherwise.\<close>

definition worktree_add :: "string \<Rightarrow> string \<Rightarrow> string \<Rightarrow> bool \<Rightarrow> string list" where
  "worktree_add baseRepoPath worktreePath br branchExists =
     (if branchExists then [''git'', ''-C'', baseRepoPath, ''worktree'', ''add'', worktreePath, br]
      else [''git'', ''-C'', baseRepoPath, ''worktree'', ''add'', ''-b'', br, worktreePath])"

text \<open>The retry loop of \<open>createWorktreeSafely\<close>, from \<open>attempt\<close> on. Falling out of the
  loop is the normal return of the function.\<close>

function createWorktree_attempts ::
  "'x env \<Rightarrow> string \<Rightarrow> string \<Rightarrow> string \<Rightarrow> bool \<Rightarrow> nat \<Rightarrow> (unit, 'x) action" where
  "createWorktree_attempts env baseRepoPath worktreePath br branchExists attempt w =
     (if attempt \<le> maxRetries then
        (case executeCommand env (worktree_add baseRepoPath worktreePath br branchExists) None w of
           (Inr out, w1) \<Rightarrow> (Inr (), w1)
         | (Inl error, w1) \<Rightarrow>
             (let isLastAttempt = (attempt = maxRetries);
                  errorMessage = message error in
              if includes_str errorMessage ''already used by worktree'' then
                (case cleanupStaleWorktree env baseRepoPath worktreePath w1 of
                   (Inl e, w2) \<Rightarrow> (Inl e, w2)
                 | (Inr cleaned, w2) \<Rightarrow>
                     if \<not> cleaned \<and> isLastAttempt then
                       (Inl (Error (''Failed to create worktree: '' @ [CHR 0x27] @ br @ [CHR 0x27]
                               @ '' is already used by a worktree and cleanup failed.''
                               @ '' Manual intervention may be required.'')), w2)
                     else if \<not> cleaned then
                       createWorktree_attempts env baseRepoPath worktreePath br branchExists
                         (Suc attempt) w2
                     else
                       createWorktree_attempts env baseRepoPath worktreePath br branchExists
                         (Suc attempt) w2)
              else if isLastAttempt then
                (Inl (Error (''Failed to create worktree after '' @ show_nat maxRetries
                        @ '' attempts: '' @ errorMessage)), w1)
              else
                createWorktree_attempts env baseRepoPath worktreePath br branchExists
                  (Suc attempt) w1))
      else (Inr (), w))"
  by pat_completeness auto
termination
  by (relation "measure (\<lambda>(env, baseRepoPath, worktreePath, br, branchExists, attempt, w).
         Suc maxRetries - attempt)") auto

declare createWorktree_attempts.simps [simp del]

definition createWorktreeSafely :: "'x env \<Rightarrow> string \<Rightarrow> string \<Rightarrow> string \<Rightarrow> (unit, 'x) action" where
  "createWorktreeSafely env baseRepoPath worktreePath br =
     bindE (executeCommand env
              [''git'', ''-C'', baseRepoPath, ''rev-parse'', ''--abbrev-ref'', ''HEAD''] None) (\<lambda>currentBranch.
     bindE (if trim currentBranch = br then
              bindE (catchE
                       (bindE (executeCommand env
                                 [''git'', ''-C'', baseRepoPath, ''rev-parse'', ''--abbrev-ref'',
                                  ''origin/HEAD''] None)
                          (\<lambda>ref. returnE (replace_first (trim ref) ''origin/'' [])))
                       (\<lambda>_. returnE ''main'')) (\<lambda>defaultBranch.
              catchE
                (bindE (executeCommand env
                          [''git'', ''-C'', baseRepoPath, ''checkout'', defaultBranch] None)
                   (\<lambda>_. returnE ()))
                (\<lambda>_. bindE (executeCommand env
                               [''git'', ''-C'', baseRepoPath, ''checkout'', ''main''] None)
                        (\<lambda>_. returnE ())))
            else returnE ()) (\<lambda>_.
     bindE (catchE
              (bindE (executeCommand env
                        [''git'', ''-C'', baseRepoPath, ''rev-parse'', ''--verify'', ''refs/heads/'' @ br] None)
                 (\<lambda>_. returnE True))
              (\<lambda>_. catchE
                      (bindE (executeCommand env
                                [''git'', ''-C'', baseRepoPath, ''rev-parse'', ''--verify'',
                                 ''refs/remotes/origin/'' @ br] None)
                         (\<lambda>_. returnE True))
                      (\<lambda>_. returnE False))) (\<lambda>branchExists.
     createWorktree_attempts env baseRepoPath worktreePath br branchExists 1)))"

section \<open>Provisioning\<close>


definition shouldUseWorktree :: "bool \<Rightarrow> string option \<Rightarrow> string \<Rightarrow> bool" where
  "shouldUseWorktree useWorktree br baseRepoExists =
     (useWorktree \<and> truthy br \<and> trim baseRepoExists = ''exists'')"

text \<open>
  Two blocks occur twice in \<open>cloneRepo\<close>, word for word up to the working directory of
  the first command: the removal of a directory that occupies the target path, and the
  clone of the default branch followed by the local checkout of the requested branch.
  Each is written once here.
\<close>

definition removeExistingDirectory :: "'x env \<Rightarrow> string \<Rightarrow> string \<Rightarrow> (unit, 'x) action" where
  "removeExistingDirectory env worktreeDirName cwd =
     bindE (executeCommand env
              [''bash'', ''-c'', ''test -d '' @ worktreeDirName @ '' && echo exists || echo missing'']
              (Some cwd)) (\<lambda>worktreeExists.
     if trim worktreeExists = ''exists'' then
       catchE
         (bindE (executeCommand env [''rm'', ''-rf'', worktreeDirName] (Some (getReposPath env))) (\<lambda>_.
          bindE (executeCommand env
                   [''bash'', ''-c'', ''test -d '' @ worktreeDirName @ '' && echo exists || echo removed'']
                   (Some (getReposPath env))) (\<lambda>verifyRemoved.
          if trim verifyRemoved = ''exists'' then
            throwE (Error (''Failed to remove existing directory: '' @ worktreeDirName))
          else returnE ())))
         (\<lambda>cleanupError.
            throwE (Error (''Cannot clone: directory '' @ worktreeDirName
                      @ '' exists and could not be removed'')))
     else returnE ())"

definition cloneDefaultThenBranch :: "'x env \<Rightarrow> string \<Rightarrow> string \<Rightarrow> string \<Rightarrow> (unit, 'x) action" where
  "cloneDefaultThenBranch env cloneUrl worktreeDirName b =
     bindE (executeCommand env [''git'', ''clone'', cloneUrl, worktreeDirName]
              (Some (getReposPath env))) (\<lambda>_.
     bindE (catchE
              (bindE (executeCommand env
                        [''git'', ''-C'', path_resolve env [getReposPath env, worktreeDirName],
                         ''rev-parse'', ''--verify'', ''refs/heads/'' @ b] None)
                 (\<lambda>_. returnE ''exists''))
              (\<lambda>_. returnE ''missing'')) (\<lambda>localBranchExists.
     if trim localBranchExists = ''missing'' then
       bindE (executeCommand env
                [''git'', ''-C'', path_resolve env [getReposPath env, worktreeDirName],
                 ''checkout'', ''-b'', b] None)
         (\<lambda>_. returnE ())
     else
       bindE (executeCommand env
                [''git'', ''-C'', path_resolve env [getReposPath env, worktreeDirName],
                 ''checkout'', b] None)
         (\<lambda>_. returnE ())))"

text \<open>The three branches of the \<open>try\<close> block. Each yields the row to return at once
  (the early \<open>return\<close> of the last branch) or nothing, to go on to the end of the block.
  The first is the worktree path; the second clones the branch separately.\<close>

definition cloneRepo_worktree ::
  "'x env \<Rightarrow> string option \<Rightarrow> string \<Rightarrow> string \<Rightarrow> (Repo option, 'x) action" where
  "cloneRepo_worktree env br baseRepoDirName worktreeDirName =
     (let baseRepoPath = path_resolve env [getReposPath env, baseRepoDirName];
          worktreePath = path_resolve env [getReposPath env, worktreeDirName] in
      bindE (executeCommand env [''git'', ''-C'', baseRepoPath, ''fetch'', ''--all''] None) (\<lambda>_.
      bindE (createWorktreeSafely env baseRepoPath worktreePath (str br)) (\<lambda>_.
      bindE (catchE
               (bindE (executeCommand env [''test'', ''-d'', worktreePath] None) (\<lambda>_. returnE True))
               (\<lambda>_. returnE False)) (\<lambda>worktreeVerified.
      if \<not> worktreeVerified then
        throwE (Error (''Worktree directory was not created at: '' @ worktreePath))
      else returnE None))))"

definition cloneRepo_separate ::
  "'x env \<Rightarrow> string option \<Rightarrow> string \<Rightarrow> string \<Rightarrow> (Repo option, 'x) action" where
  "cloneRepo_separate env br cloneUrl worktreeDirName =
     bindE (removeExistingDirectory env worktreeDirName (path_resolve env [getReposPath env])) (\<lambda>_.
     bindE (catchE
              (bindE (executeCommand env
                        [''git'', ''clone'', ''-b'', str br, cloneUrl, worktreeDirName]
                        (Some (getReposPath env)))
                 (\<lambda>_. returnE ()))
              (\<lambda>error.
                 if includes_str (message error) ''destination path''
                    \<and> includes_str (message error) ''already exists'' then
                   throwE (Error (''Workspace directory '' @ worktreeDirName
                             @ '' already exists. Please delete it manually or contact support.''))
                 else cloneDefaultThenBranch env cloneUrl worktreeDirName (str br)))
       (\<lambda>_. returnE None))"

text \<open>The last branch, in three parts: the switch of a valid existing repository to the
  requested branch; the reuse of the existing directory, which returns early when it is a
  valid repository and removes it otherwise; and the clone into the target directory.\<close>

definition cloneRepo_switch :: "'x env \<Rightarrow> string option \<Rightarrow> string \<Rightarrow> (unit, 'x) action" where
  "cloneRepo_switch env br baseRepoDirName =
     (if truthy br then
        bindE (executeCommand env
                 [''git'', ''-C'', path_resolve env [getReposPath env, baseRepoDirName],
                  ''fetch'', ''--all''] None) (\<lambda>_.
        bindE (catchE
                 (bindE (executeCommand env
                           [''git'', ''-C'', path_resolve env [getReposPath env, baseRepoDirName],
                            ''rev-parse'', ''--verify'', ''refs/remotes/origin/'' @ str br] None)
                    (\<lambda>_. returnE True))
                 (\<lambda>_. returnE False)) (\<lambda>remoteBranchExists.
        bindE (catchE
                 (bindE (executeCommand env
                           [''git'', ''-C'', path_resolve env [getReposPath env, baseRepoDirName],
                            ''rev-parse'', ''--verify'', ''refs/heads/'' @ str br] None)
                    (\<lambda>_. returnE True))
                 (\<lambda>_. returnE False)) (\<lambda>localBranchExists.
        if localBranchExists then
          bindE (executeCommand env
                   [''git'', ''-C'', path_resolve env [getReposPath env, baseRepoDirName],
                    ''checkout'', str br] None)
            (\<lambda>_. returnE ())
        else if remoteBranchExists then
          bindE (executeCommand env
                   [''git'', ''-C'', path_resolve env [getReposPath env, baseRepoDirName],
                    ''checkout'', ''-b'', str br, ''origin/'' @ str br] None)
            (\<lambda>_. returnE ())
        else
          bindE (executeCommand env
                   [''git'', ''-C'', path_resolve env [getReposPath env, baseRepoDirName],
                    ''checkout'', ''-b'', str br] None)
            (\<lambda>_. returnE ()))))
      else returnE ())"

definition cloneRepo_reuse ::
  "'x env \<Rightarrow> string option \<Rightarrow> string \<Rightarrow> string \<Rightarrow> Repo \<Rightarrow> (Repo option, 'x) action" where
  "cloneRepo_reuse env br baseRepoExists baseRepoDirName repo =
     (if trim baseRepoExists = ''exists'' then
        bindE (catchE
                 (bindE (executeCommand env
                           [''git'', ''-C'', path_resolve env [getReposPath env, baseRepoDirName],
                            ''rev-parse'', ''--git-dir'']
                           (Some (path_resolve env [getReposPath env])))
                    (\<lambda>_. returnE ''valid''))
                 (\<lambda>_. returnE ''invalid'')) (\<lambda>isValidRepo.
        if trim isValidRepo = ''valid'' then
          bindE (cloneRepo_switch env br baseRepoDirName) (\<lambda>_.
          bindE (updateRepoStatus (repo_id repo) Ready) (\<lambda>_.
          returnE (Some (repo \<lparr> cloneStatus := Ready \<rparr>))))
        else
          bindE (executeCommand env [''rm'', ''-rf'', baseRepoDirName] (Some (getReposPath env)))
            (\<lambda>_. returnE None))
      else returnE None)"

definition cloneRepo_fresh ::
  "'x env \<Rightarrow> string option \<Rightarrow> string \<Rightarrow> string \<Rightarrow> (Repo option, 'x) action" where
  "cloneRepo_fresh env br cloneUrl worktreeDirName =
     bindE (removeExistingDirectory env worktreeDirName (getReposPath env)) (\<lambda>_.
     bindE (catchE
              (bindE (executeCommand env
                        (if truthy br then [''git'', ''clone'', ''-b'', str br, cloneUrl, worktreeDirName]
                         else [''git'', ''clone'', cloneUrl, worktreeDirName])
                        (Some (getReposPath env)))
                 (\<lambda>_. returnE ()))
              (\<lambda>error.
                 if includes_str (message error) ''destination path''
                    \<and> includes_str (message error) ''already exists'' then
                   throwE (Error (''Workspace directory '' @ worktreeDirName
                             @ '' already exists. Please delete it manually or contact support.''))
                 else if truthy br \<and> (includes_str (message error) ''Remote branch''
                                        \<or> includes_str (message error) ''not found'') then
                   cloneDefaultThenBranch env cloneUrl worktreeDirName (str br)
                 else throwE error))
       (\<lambda>_. returnE None))"

definition cloneRepo_else ::
  "'x env \<Rightarrow> string option \<Rightarrow> string \<Rightarrow> string \<Rightarrow> string \<Rightarrow> string \<Rightarrow> Repo
     \<Rightarrow> (Repo option, 'x) action" where
  "cloneRepo_else env br cloneUrl baseRepoExists baseRepoDirName worktreeDirName repo =
     bindE (cloneRepo_reuse env br baseRepoExists baseRepoDirName repo) (\<lambda>early.
     case early of
       Some r \<Rightarrow> returnE (Some r)
     | None \<Rightarrow> cloneRepo_fresh env br cloneUrl worktreeDirName)"

definition cloneRepo_branches ::
  "'x env \<Rightarrow> string option \<Rightarrow> bool \<Rightarrow> string \<Rightarrow> string \<Rightarrow> string \<Rightarrow> string \<Rightarrow> Repo
     \<Rightarrow> (Repo option, 'x) action" where
  "cloneRepo_branches env br useWorktree cloneUrl baseRepoExists baseRepoDirName worktreeDirName repo =
     (if shouldUseWorktree useWorktree br baseRepoExists then
        cloneRepo_worktree env br baseRepoDirName worktreeDirName
      else if truthy br \<and> trim baseRepoExists = ''exists'' \<and> useWorktree then
        cloneRepo_separate env br cloneUrl worktreeDirName
      else
        cloneRepo_else env br cloneUrl baseRepoExists baseRepoDirName worktreeDirName repo)"






section \<open>Predicates on actions\<close>

text \<open>An action is quiet when it leaves the record store as it is and only adds events
  of a given kind to the log; it appends when it only adds to the log; it starts with a
  command when that command is the first thing it adds; it is unfailing when it never
  throws.\<close>

definition quiet :: "(event \<Rightarrow> bool) \<Rightarrow> ('a, 'x) action \<Rightarrow> bool" where
  "quiet P m =
     (\<forall>w. db (snd (m w)) = db w
          \<and> (\<exists>evs. trace (snd (m w)) = trace w @ evs \<and> list_all P evs))"





definition is_exec :: "event \<Rightarrow> bool" where
  "is_exec ev = (case ev of Exec argv cwd res \<Rightarrow> True | EnsureDir p res \<Rightarrow> True | _ \<Rightarrow> False)"


definition marks_ready :: "nat \<Rightarrow> 'x world \<Rightarrow> 'x world \<Rightarrow> bool" where
  "marks_ready i w w' =
     (db w' = update_status (db w) i Ready
      \<and> (\<exists>evs. trace w' = trace w @ evs @ [DbUpdateStatus i Ready] \<and> list_all is_exec evs))"

section \<open>The specification's wording of the branch resolution\<close>


section \<open>The specification's wording of reconciliation\<close>





section \<open>The specification's wording of the default branch\<close>





definition is_worktree_add :: "event \<Rightarrow> bool" where
  "is_worktree_add ev =
     (case ev of
        Exec argv cwd res \<Rightarrow> take 2 (drop 3 argv) = [''worktree'', ''add'']
      | _ \<Rightarrow> False)"


text \<open>An action stays within \<open>n\<close> attempts when it adds at most \<open>n\<close> commands that
  add a worktree to the log.\<close>

definition attempts_within :: "nat \<Rightarrow> ('a, 'x) action \<Rightarrow> bool" where
  "attempts_within n m =
     (\<forall>w. \<exists>evs. trace (snd (m w)) = trace w @ evs \<and> length (filter is_worktree_add evs) \<le> n)"

section \<open>The specification's wording of the worktree mode\<close>



section \<open>A scripted executor\<close>

text \<open>For concrete runs: the executor answers each command with the next result of a
  script (and with empty output once the script is used up), the workspaces root is
  \<open>/repos\<close>, and paths are joined with a slash.\<close>

fun join_path :: "string list \<Rightarrow> string" where
  "join_path [] = []"
| "join_path [a] = a"
| "join_path (a # b # rest) = a @ ''/'' @ join_path (b # rest)"

definition scripted :: "((error + string) list) env" where
  "scripted =
     \<lparr> run_process = (\<lambda>argv cwd q. case q of [] \<Rightarrow> (Inr [], []) | r # rs \<Rightarrow> (r, rs)),
       ensure_dir = (\<lambda>p q. (Inr (), q)),
       settings_gitToken = (\<lambda>q. Inr None),
       getReposPath = ''/repos'',
       path_resolve = join_path,
       date_now = (\<lambda>q. 0) \<rparr>"

definition plain_row :: "nat \<Rightarrow> string \<Rightarrow> Repo" where
  "plain_row i p =
     \<lparr> repoUrl = ''https://example.org/team/'' @ p @ ''.git'', localPath = p, branch = None,
       defaultBranch = ''main'', cloneStatus = Ready, clonedAt = 0, isWorktree = False,
       repo_id = i, lastPulled = None, openCodeConfigName = None \<rparr>"

definition app_row :: Repo where
  "app_row = plain_row 1 ''app''"

definition world_of :: "Repo list \<Rightarrow> (error + string) list \<Rightarrow> ((error + string) list) world" where
  "world_of rs script = \<lparr> db = \<lparr> rows = rs, next_id = Suc (length rs) \<rparr>, ext = script, trace = [] \<rparr>"

text \<open>Scripts for \<open>createWorktreeSafely\<close>: a branch that another worktree holds, so that
  every attempt meets the same conflict while the listing has no entry for the new path;
  a base repository on the requested branch whose default branch cannot be checked out;
  and one whose default branch can.\<close>

definition line :: "string \<Rightarrow> string" where
  "line s = s @ [CHR 0x0A]"

definition conflict_error :: error where
  "conflict_error =
     Error (''fatal: '' @ [CHR 0x27] @ ''feature'' @ [CHR 0x27] @ '' is already used by worktree at ''
            @ [CHR 0x27] @ ''/srv/other'' @ [CHR 0x27])"

definition other_listing :: string where
  "other_listing =
     line ''worktree /repos/app'' @ line ''HEAD 4f2a'' @ line ''branch refs/heads/main'' @ line []
     @ line ''worktree /srv/other'' @ line ''HEAD 4f2a'' @ line ''branch refs/heads/feature''"

definition stuck_script :: "(error + string) list" where
  "stuck_script =
     [Inr (line ''main''), Inr (line ''4f2a''),
      Inl conflict_error, Inr other_listing, Inr [],
      Inl conflict_error, Inr other_listing, Inr [],
      Inl conflict_error, Inr other_listing, Inr []]"






section \<open>Properties\<close>

subsection \<open>Running an action\<close>

lemma returnE_apply: "returnE v w = (Inr v, w)"
  by (simp add: returnE_def)

lemma throwE_apply: "throwE e w = (Inl e, w)"
  by (simp add: throwE_def)





subsection \<open>Branch operations\<close>






subsection \<open>Quiet and unfailing actions\<close>

lemma quietI:
  assumes "\<And>w. db (snd (m w)) = db w"
    and "\<And>w. \<exists>evs. trace (snd (m w)) = trace w @ evs \<and> list_all P evs"
  shows "quiet P m"
  using assms by (simp add: quiet_def)

lemma quiet_db: "quiet P m \<Longrightarrow> m w = (r, w') \<Longrightarrow> db w' = db w"
  by (auto simp: quiet_def dest: spec [of _ w])

lemma quiet_trace:
  "quiet P m \<Longrightarrow> m w = (r, w') \<Longrightarrow> \<exists>evs. trace w' = trace w @ evs \<and> list_all P evs"
  by (auto simp: quiet_def dest: spec [of _ w])

lemma quiet_returnE: "quiet P (returnE v)"
  by (simp add: quiet_def returnE_def)

lemma quiet_throwE: "quiet P (throwE e)"
  by (simp add: quiet_def throwE_def)

lemma quiet_executeCommand:
  "(\<And>res. P (Exec argv cwd res)) \<Longrightarrow> quiet P (executeCommand env argv cwd)"
  by (simp add: quiet_def executeCommand_def split: prod.splits)

lemma quiet_ensureDirectoryExists:
  "(\<And>res. P (EnsureDir p res)) \<Longrightarrow> quiet P (ensureDirectoryExists env p)"
  by (simp add: quiet_def ensureDirectoryExists_def split: prod.splits)

lemma quiet_readers:
  "quiet P (extractRepoName env url)" "quiet P (getSettings env)" "quiet P (dateNow env)"
  "quiet P (getRepoByIdA i)" "quiet P (getRepoByUrlAndBranchA url b)" "quiet P listReposA"
  by (simp_all add: quiet_def extractRepoName_def getSettings_def dateNow_def getRepoByIdA_def
      getRepoByUrlAndBranchA_def listReposA_def)

lemma quiet_bindE:
  assumes m: "quiet P m" and f: "\<And>v. quiet P (f v)"
  shows "quiet P (bindE m f)"
proof (rule quietI)
  fix w
  obtain r w1 where mw: "m w = (r, w1)" by fastforce
  from quiet_db [OF m mw] quiet_trace [OF m mw]
  obtain evs where 1: "db w1 = db w" "trace w1 = trace w @ evs" "list_all P evs" by blast
  show "db (snd (bindE m f w)) = db w"
  proof (cases r)
    case (Inl e) with mw 1 show ?thesis by (simp add: bindE_def)
  next
    case (Inr v)
    obtain r2 w2 where fw: "f v w1 = (r2, w2)" by fastforce
    from quiet_db [OF f fw] 1 mw Inr fw show ?thesis by (simp add: bindE_def)
  qed
  show "\<exists>evs. trace (snd (bindE m f w)) = trace w @ evs \<and> list_all P evs"
  proof (cases r)
    case (Inl e) with mw 1 show ?thesis by (simp add: bindE_def)
  next
    case (Inr v)
    obtain r2 w2 where fw: "f v w1 = (r2, w2)" by fastforce
    from quiet_trace [OF f fw] obtain evs2 where "trace w2 = trace w1 @ evs2" "list_all P evs2"
      by blast
    with 1 have "trace w2 = trace w @ (evs @ evs2) \<and> list_all P (evs @ evs2)" by simp
    with mw Inr fw show ?thesis by (auto simp: bindE_def)
  qed
qed

lemma quiet_catchE:
  assumes m: "quiet P m" and h: "\<And>e. quiet P (h e)"
  shows "quiet P (catchE m h)"
proof (rule quietI)
  fix w
  obtain r w1 where mw: "m w = (r, w1)" by fastforce
  from quiet_db [OF m mw] quiet_trace [OF m mw]
  obtain evs where 1: "db w1 = db w" "trace w1 = trace w @ evs" "list_all P evs" by blast
  show "db (snd (catchE m h w)) = db w"
  proof (cases r)
    case (Inr v) with mw 1 show ?thesis by (simp add: catchE_def)
  next
    case (Inl e)
    obtain r2 w2 where hw: "h e w1 = (r2, w2)" by fastforce
    from quiet_db [OF h hw] 1 mw Inl hw show ?thesis by (simp add: catchE_def)
  qed
  show "\<exists>evs. trace (snd (catchE m h w)) = trace w @ evs \<and> list_all P evs"
  proof (cases r)
    case (Inr v) with mw 1 show ?thesis by (simp add: catchE_def)
  next
    case (Inl e)
    obtain r2 w2 where hw: "h e w1 = (r2, w2)" by fastforce
    from quiet_trace [OF h hw] obtain evs2 where "trace w2 = trace w1 @ evs2" "list_all P evs2"
      by blast
    with 1 have "trace w2 = trace w @ (evs @ evs2) \<and> list_all P (evs @ evs2)" by simp
    with mw Inl hw show ?thesis by (auto simp: catchE_def)
  qed
qed

lemma quiet_if: "(c \<Longrightarrow> quiet P a) \<Longrightarrow> (\<not> c \<Longrightarrow> quiet P b) \<Longrightarrow> quiet P (if c then a else b)"
  by simp

lemma quiet_Let: "quiet P (f v) \<Longrightarrow> quiet P (Let v f)"
  by simp

lemma quiet_case_option:
  "quiet P a \<Longrightarrow> (\<And>v. quiet P (f v)) \<Longrightarrow> quiet P (case x of None \<Rightarrow> a | Some v \<Rightarrow> f v)"
  by (cases x) simp_all

lemmas quiet_intros =
  quiet_returnE quiet_throwE quiet_readers quiet_bindE quiet_catchE quiet_if quiet_Let
  quiet_case_option












subsection \<open>Deletion\<close>






subsection \<open>Orphan reconciliation\<close>






subsection \<open>Worktree safety subroutines\<close>

lemma is_exec_Exec: "is_exec (Exec argv cwd res)"
  by (simp add: is_exec_def)




lemma attempts_exhausted:
  "\<not> attempt \<le> maxRetries \<Longrightarrow>
     createWorktree_attempts env baseRepoPath worktreePath br branchExists attempt w = (Inr (), w)"
  by (subst createWorktree_attempts.simps) simp

lemma attempts_created:
  "attempt \<le> maxRetries \<Longrightarrow>
   executeCommand env (worktree_add baseRepoPath worktreePath br branchExists) None w = (Inr out, w1) \<Longrightarrow>
     createWorktree_attempts env baseRepoPath worktreePath br branchExists attempt w = (Inr (), w1)"
  by (subst createWorktree_attempts.simps) simp

lemma attempts_fatal:
  "attempt = maxRetries \<Longrightarrow>
   executeCommand env (worktree_add baseRepoPath worktreePath br branchExists) None w = (Inl error, w1) \<Longrightarrow>
   \<not> includes_str (message error) ''already used by worktree'' \<Longrightarrow>
     createWorktree_attempts env baseRepoPath worktreePath br branchExists attempt w =
       (Inl (Error (''Failed to create worktree after '' @ show_nat maxRetries
               @ '' attempts: '' @ message error)), w1)"
  by (subst createWorktree_attempts.simps) (simp add: Let_def)

lemma attempts_retry:
  "attempt < maxRetries \<Longrightarrow>
   executeCommand env (worktree_add baseRepoPath worktreePath br branchExists) None w = (Inl error, w1) \<Longrightarrow>
   \<not> includes_str (message error) ''already used by worktree'' \<Longrightarrow>
     createWorktree_attempts env baseRepoPath worktreePath br branchExists attempt w =
       createWorktree_attempts env baseRepoPath worktreePath br branchExists (Suc attempt) w1"
  by (subst createWorktree_attempts.simps) (simp add: Let_def)

lemma attempts_cleanup_throws:
  "attempt \<le> maxRetries \<Longrightarrow>
   executeCommand env (worktree_add baseRepoPath worktreePath br branchExists) None w = (Inl error, w1) \<Longrightarrow>
   includes_str (message error) ''already used by worktree'' \<Longrightarrow>
   cleanupStaleWorktree env baseRepoPath worktreePath w1 = (Inl e, w2) \<Longrightarrow>
     createWorktree_attempts env baseRepoPath worktreePath br branchExists attempt w = (Inl e, w2)"
  by (subst createWorktree_attempts.simps) (simp add: Let_def)

lemma attempts_conflict_fatal:
  "attempt = maxRetries \<Longrightarrow>
   executeCommand env (worktree_add baseRepoPath worktreePath br branchExists) None w = (Inl error, w1) \<Longrightarrow>
   includes_str (message error) ''already used by worktree'' \<Longrightarrow>
   cleanupStaleWorktree env baseRepoPath worktreePath w1 = (Inr False, w2) \<Longrightarrow>
     createWorktree_attempts env baseRepoPath worktreePath br branchExists attempt w =
       (Inl (Error (''Failed to create worktree: '' @ [CHR 0x27] @ br @ [CHR 0x27]
               @ '' is already used by a worktree and cleanup failed.''
               @ '' Manual intervention may be required.'')), w2)"
  by (subst createWorktree_attempts.simps) (simp add: Let_def)

lemma attempts_conflict_next:
  "attempt \<le> maxRetries \<Longrightarrow>
   executeCommand env (worktree_add baseRepoPath worktreePath br branchExists) None w = (Inl error, w1) \<Longrightarrow>
   includes_str (message error) ''already used by worktree'' \<Longrightarrow>
   cleanupStaleWorktree env baseRepoPath worktreePath w1 = (Inr cleaned, w2) \<Longrightarrow>
   cleaned \<or> attempt \<noteq> maxRetries \<Longrightarrow>
     createWorktree_attempts env baseRepoPath worktreePath br branchExists attempt w =
       createWorktree_attempts env baseRepoPath worktreePath br branchExists (Suc attempt) w2"
  by (subst createWorktree_attempts.simps) (auto simp: Let_def)











lemma attempts_withinD:
  "attempts_within n m \<Longrightarrow> m w = (r, w') \<Longrightarrow>
     \<exists>evs. trace w' = trace w @ evs \<and> length (filter is_worktree_add evs) \<le> n"
  by (auto simp: attempts_within_def dest: spec [of _ w])

lemma attempts_within_quiet:
  assumes "quiet (\<lambda>ev. \<not> is_worktree_add ev) m"
  shows "attempts_within 0 m"
  unfolding attempts_within_def
proof
  fix w
  obtain r w' where mw: "m w = (r, w')" by fastforce
  from quiet_trace [OF assms mw] obtain evs where "trace w' = trace w @ evs"
    and "list_all (\<lambda>ev. \<not> is_worktree_add ev) evs" by blast
  then have "trace w' = trace w @ evs \<and> filter is_worktree_add evs = []"
    by (simp add: list_all_iff filter_empty_conv)
  with mw show "\<exists>evs. trace (snd (m w)) = trace w @ evs \<and> length (filter is_worktree_add evs) \<le> 0"
    by auto
qed

lemma attempts_within_mono: "attempts_within n m \<Longrightarrow> n \<le> k \<Longrightarrow> attempts_within k m"
  unfolding attempts_within_def by (meson le_trans)

lemma attempts_within_bindE:
  assumes m: "attempts_within a m" and f: "\<And>v. attempts_within b (f v)"
  shows "attempts_within (a + b) (bindE m f)"
  unfolding attempts_within_def
proof
  fix w
  obtain r w1 where mw: "m w = (r, w1)" by fastforce
  from attempts_withinD [OF m mw] obtain evs where 1: "trace w1 = trace w @ evs"
    "length (filter is_worktree_add evs) \<le> a" by blast
  show "\<exists>evs. trace (snd (bindE m f w)) = trace w @ evs
          \<and> length (filter is_worktree_add evs) \<le> a + b"
  proof (cases r)
    case (Inl e)
    with mw 1 show ?thesis by (auto simp: bindE_def)
  next
    case (Inr v)
    obtain r2 w2 where fw: "f v w1 = (r2, w2)" by fastforce
    from attempts_withinD [OF f fw] obtain evs2 where 2: "trace w2 = trace w1 @ evs2"
      "length (filter is_worktree_add evs2) \<le> b" by blast
    from 1 2 have "trace w2 = trace w @ (evs @ evs2)"
      "length (filter is_worktree_add (evs @ evs2)) \<le> a + b" by simp_all
    with mw Inr fw show ?thesis by (auto simp: bindE_def simp del: filter_append)
  qed
qed

lemma not_add_cleanup:
  "\<not> is_worktree_add (Exec [''git'', ''-C'', b, ''worktree'', ''prune''] None r)"
  "\<not> is_worktree_add (Exec [''git'', ''-C'', b, ''worktree'', ''remove'', ''--force'', p] None r)"
  "\<not> is_worktree_add (Exec [''git'', ''-C'', b, ''worktree'', ''list'', ''--porcelain''] None r)"
  "\<not> is_worktree_add (Exec [''git'', ''-C'', b, ''rev-parse'', ''--abbrev-ref'', h] None r)"
  "\<not> is_worktree_add (Exec [''git'', ''-C'', b, ''rev-parse'', ''--verify'', h] None r)"
  "\<not> is_worktree_add (Exec [''git'', ''-C'', b, ''checkout'', h] None r)"
  by (simp_all add: is_worktree_add_def)

lemma cleanup_no_attempt:
  "quiet (\<lambda>ev. \<not> is_worktree_add ev) (cleanupStaleWorktree env baseRepoPath worktreePath)"
proof -
  have prune: "quiet (\<lambda>ev. \<not> is_worktree_add ev) (pruneWorktreeReferences env baseRepoPath)"
    unfolding pruneWorktreeReferences_def
    by (intro quiet_intros quiet_executeCommand not_add_cleanup)
  have scan: "quiet (\<lambda>ev. \<not> is_worktree_add ev)
      (cleanupStaleWorktree_lines env baseRepoPath worktreePath ls)" for ls
    by (induction ls) (auto intro!: quiet_intros quiet_executeCommand not_add_cleanup prune)
  show ?thesis
    unfolding cleanupStaleWorktree_def
    by (intro quiet_intros quiet_executeCommand not_add_cleanup scan)
qed

lemma attempts_bounded:
  "\<exists>evs. trace (snd (createWorktree_attempts env baseRepoPath worktreePath br branchExists attempt w))
           = trace w @ evs
         \<and> length (filter is_worktree_add evs) \<le> Suc maxRetries - attempt"
proof (induction env baseRepoPath worktreePath br branchExists attempt w
    rule: createWorktree_attempts.induct)
  case (1 env baseRepoPath worktreePath br branchExists attempt w)
  let ?cmd = "worktree_add baseRepoPath worktreePath br branchExists"
  let ?add = "executeCommand env ?cmd None"
  show ?case
  proof (cases "attempt \<le> maxRetries")
    case False
    then show ?thesis by (simp add: attempts_exhausted)
  next
    case le: True
    obtain r w1 where add: "?add w = (r, w1)" by fastforce
    then have t1: "trace w1 = trace w @ [Exec ?cmd None r]"
      by (auto simp: executeCommand_def split: prod.splits)
    have one: "length (filter is_worktree_add [Exec ?cmd None r]) \<le> 1"
      by simp
    have step: "\<exists>evs. trace w' = trace w @ evs
            \<and> length (filter is_worktree_add evs) \<le> Suc maxRetries - attempt"
      if "trace w' = trace w2 @ evs3" "length (filter is_worktree_add evs3) \<le> Suc maxRetries - Suc attempt"
        "trace w2 = trace w1 @ evs2" "filter is_worktree_add evs2 = []" for w' w2 evs2 evs3
    proof -
      from that t1 have "trace w' = trace w @ ([Exec ?cmd None r] @ evs2 @ evs3)" by simp
      moreover from that one le
      have "length (filter is_worktree_add ([Exec ?cmd None r] @ evs2 @ evs3)) \<le> Suc maxRetries - attempt"
        by (simp del: filter.simps) (simp split: if_splits)
      ultimately show ?thesis by blast
    qed
    have stop: "\<exists>evs. trace w2 = trace w @ evs
            \<and> length (filter is_worktree_add evs) \<le> Suc maxRetries - attempt"
      if "trace w2 = trace w1 @ evs2" "filter is_worktree_add evs2 = []" for w2 evs2
    proof -
      from that t1 have "trace w2 = trace w @ ([Exec ?cmd None r] @ evs2)" by simp
      moreover from that one le
      have "length (filter is_worktree_add ([Exec ?cmd None r] @ evs2)) \<le> Suc maxRetries - attempt"
        by (simp del: filter.simps) (simp split: if_splits)
      ultimately show ?thesis by blast
    qed
    show ?thesis
    proof (cases r)
      case (Inr out)
      with attempts_created [OF le add [unfolded Inr]] stop [of w1 "[]"] show ?thesis by simp
    next
      case (Inl error)
      note err = this
      show ?thesis
      proof (cases "includes_str (message error) ''already used by worktree''")
        case False
        note nc = this
        show ?thesis
        proof (cases "attempt = maxRetries")
          case True
          with attempts_fatal [OF True add [unfolded err] nc] stop [of w1 "[]"] show ?thesis by simp
        next
          case False
          with le have lt: "attempt < maxRetries" by simp
          from "1.IH"(3) [OF le add [symmetric] err refl refl nc False]
          obtain evs3 where
            "trace (snd (createWorktree_attempts env baseRepoPath worktreePath br branchExists
                       (Suc attempt) w1)) = trace w1 @ evs3"
            "length (filter is_worktree_add evs3) \<le> Suc maxRetries - Suc attempt"
            by blast
          from step [OF this, of "[]"] attempts_retry [OF lt add [unfolded err] nc]
          show ?thesis by simp
        qed
      next
        case True
        note conflict = this
        obtain rc w2 where cl: "cleanupStaleWorktree env baseRepoPath worktreePath w1 = (rc, w2)"
          by fastforce
        from quiet_trace [OF cleanup_no_attempt cl]
        obtain evs2 where 2: "trace w2 = trace w1 @ evs2" "filter is_worktree_add evs2 = []"
          by (auto simp: list_all_iff filter_empty_conv)
        show ?thesis
        proof (cases rc)
          case (Inl e)
          with attempts_cleanup_throws [OF le add [unfolded err] conflict] cl stop [OF 2]
          show ?thesis by simp
        next
          case (Inr cleaned)
          note cleaned = this
          show ?thesis
          proof (cases "\<not> cleaned \<and> attempt = maxRetries")
            case True
            with attempts_conflict_fatal [OF _ add [unfolded err] conflict] cl cleaned stop [OF 2]
            show ?thesis by simp
          next
            case False
            then have nxt: "cleaned \<or> attempt \<noteq> maxRetries" by blast
            have "\<exists>evs3. trace (snd (createWorktree_attempts env baseRepoPath worktreePath br
                       branchExists (Suc attempt) w2)) = trace w2 @ evs3
                \<and> length (filter is_worktree_add evs3) \<le> Suc maxRetries - Suc attempt"
            proof (cases cleaned)
              case True
              with "1.IH"(2) [OF le add [symmetric] err refl refl conflict cl [symmetric] cleaned]
                False show ?thesis by simp
            next
              case nc: False
              with "1.IH"(1) [OF le add [symmetric] err refl refl conflict cl [symmetric] cleaned]
                False show ?thesis by simp
            qed
            then obtain evs3 where
              "trace (snd (createWorktree_attempts env baseRepoPath worktreePath br branchExists
                         (Suc attempt) w2)) = trace w2 @ evs3"
              "length (filter is_worktree_add evs3) \<le> Suc maxRetries - Suc attempt"
              by blast
            from step [OF this 2]
              attempts_conflict_next [OF le add [unfolded err] conflict cl [unfolded cleaned] nxt]
            show ?thesis by simp
          qed
        qed
      qed
    qed
  qed
qed

lemma createWorktreeSafely_at_most_three_attempts:
  "attempts_within maxRetries (createWorktreeSafely env baseRepoPath worktreePath br)"
proof -
  have loop: "attempts_within maxRetries
      (createWorktree_attempts env baseRepoPath worktreePath br branchExists 1)" for branchExists
    unfolding attempts_within_def
  proof
    fix w
    from attempts_bounded [of env baseRepoPath worktreePath br branchExists 1 w]
    show "\<exists>evs. trace (snd (createWorktree_attempts env baseRepoPath worktreePath br branchExists
                             1 w)) = trace w @ evs
               \<and> length (filter is_worktree_add evs) \<le> maxRetries"
      by simp
  qed
  have "attempts_within (0 + (0 + (0 + maxRetries)))
      (createWorktreeSafely env baseRepoPath worktreePath br)"
    unfolding createWorktreeSafely_def
    by (intro attempts_within_bindE loop attempts_within_quiet quiet_intros quiet_executeCommand
        not_add_cleanup)
  then show ?thesis by simp
qed

text \<open>
  C2. The call makes at most three attempts, as shown above, and the claim is that it
  either creates the worktree or throws. It does not at this input: the branch is held by another
  worktree, every attempt fails with that conflict, every cleanup succeeds (the listing has
  no entry for the new path, so the metadata is pruned), and after the third cleanup the
  loop ends and the call returns normally, with three failed attempts and no worktree.
\<close>

theorem createWorktreeSafely_returns_without_worktree:
  "fst (createWorktreeSafely scripted ''/repos/app'' ''/repos/app-feature'' ''feature''
          (world_of [app_row] stuck_script)) = Inr ()
   \<and> filter is_worktree_add
        (trace (snd (createWorktreeSafely scripted ''/repos/app'' ''/repos/app-feature'' ''feature''
                       (world_of [app_row] stuck_script))))
     = [Exec (worktree_add ''/repos/app'' ''/repos/app-feature'' ''feature'' True) None (Inl conflict_error),
        Exec (worktree_add ''/repos/app'' ''/repos/app-feature'' ''feature'' True) None (Inl conflict_error),
        Exec (worktree_add ''/repos/app'' ''/repos/app-feature'' ''feature'' True) None (Inl conflict_error)]"
  by code_simp


subsection \<open>Provisioning\<close>

lemma bindE_Inr:
  "bindE m f w = (Inr v, w') \<Longrightarrow> \<exists>u w1. m w = (Inr u, w1) \<and> f u w1 = (Inr v, w')"
  by (auto simp: bindE_def split: prod.splits sum.splits)



lemma quiet_removeExistingDirectory:
  "quiet is_exec (removeExistingDirectory env worktreeDirName cwd)"
  unfolding removeExistingDirectory_def
  by (intro quiet_intros quiet_executeCommand is_exec_Exec)

lemma quiet_cloneDefaultThenBranch:
  "quiet is_exec (cloneDefaultThenBranch env cloneUrl worktreeDirName b)"
  unfolding cloneDefaultThenBranch_def
  by (intro quiet_intros quiet_executeCommand is_exec_Exec)


lemma quiet_cloneRepo_separate:
  "quiet is_exec (cloneRepo_separate env br cloneUrl worktreeDirName)"
  unfolding cloneRepo_separate_def
  by (intro quiet_intros quiet_executeCommand is_exec_Exec quiet_removeExistingDirectory
      quiet_cloneDefaultThenBranch)


lemma cloneRepo_separate_none:
  "cloneRepo_separate env br cloneUrl worktreeDirName w = (Inr v, w') \<Longrightarrow> v = None"
  by (auto simp: cloneRepo_separate_def Let_def throwE_apply returnE_apply dest!: bindE_Inr
      split: if_splits)









lemma updateRepoStatus_marks:
  "updateRepoStatus i Ready w = (r, w') \<Longrightarrow> r = Inr () \<and> marks_ready i w w'"
  by (auto simp: updateRepoStatus_def marks_ready_def)



















text \<open>
  C10. The guard of the second branch of the \<open>try\<close> block is the guard of the first:
  it holds exactly when \<open>shouldUseWorktree\<close> does. So the second branch is never
  entered, and the block runs the worktree branch or the last branch.
\<close>

theorem cloneRepo_separate_clone_unreachable:
  "(truthy br \<and> trim baseRepoExists = ''exists'' \<and> useWorktree)
     = shouldUseWorktree useWorktree br baseRepoExists
   \<and> cloneRepo_branches env br useWorktree cloneUrl baseRepoExists baseRepoDirName worktreeDirName repo
     = (if shouldUseWorktree useWorktree br baseRepoExists
        then cloneRepo_worktree env br baseRepoDirName worktreeDirName
        else cloneRepo_else env br cloneUrl baseRepoExists baseRepoDirName worktreeDirName repo)"
  by (auto simp: cloneRepo_branches_def shouldUseWorktree_def)


subsection \<open>The first command of each path\<close>























end
